theory Spec2Isabelle
  imports Main "HOL-Library.Word" "HOL-Library.Signed_Division" "HOL-Library.Char_ord"
    "HOL-Library.List_Lexorder" "HOL-Library.Monad_Syntax"
begin

section \<open>The LINSTOR client of the CSI driver (pkg/client/linstor.go)\<close>

subsection \<open>Errors\<close>

text \<open>
  One constructor for each place where the file builds an error (\<open>fmt.Errorf\<close>,
  \<open>errors.New\<close>), and one for an error handed up from a collaborator (the JSON
  library, the storage controller client). The message texts are not modelled.
\<close>

datatype error =
    MinimumExceedsLimit
  | SizeLimited
  | UnmarshalFailed
  | NameExtractFailed
  | AutoPlaceNotInteger string
  | NameIsAll
  | NameNoAlpha
  | NameNoMatch
  | CouldNotLinstorify
  | External string

subsection \<open>Resource names\<close>

text \<open>
  The name functions read their argument only through package \<open>regexp\<close> and through
  equality with ASCII literals. \<open>regexp\<close> reads a Go string as a sequence of Unicode
  code points (a byte that is not valid UTF-8 counts as one code point U+FFFD), and every
  name these functions accept or build is ASCII. A name is therefore modelled as the list
  of its code points.
\<close>

type_synonym rune = nat
type_synonym name = "rune list"

definition runes :: "string \<Rightarrow> name" where
  "runes s = map of_char s"

definition is_alpha :: "rune \<Rightarrow> bool" where
  \<comment> \<open>the class \<open>[A-Za-z]\<close>, which is also RE2's ASCII class \<open>[[:alpha:]]\<close>\<close>
  "is_alpha c = ((65 \<le> c \<and> c \<le> 90) \<or> (97 \<le> c \<and> c \<le> 122))"

definition is_digit :: "rune \<Rightarrow> bool" where
  "is_digit c = (48 \<le> c \<and> c \<le> 57)"

definition name_head :: "rune \<Rightarrow> bool" where
  \<comment> \<open>\<open>[A-Za-z_]\<close>\<close>
  "name_head c = (is_alpha c \<or> c = 95)"

definition name_char :: "rune \<Rightarrow> bool" where
  \<comment> \<open>\<open>[A-Za-z0-9\-_]\<close>\<close>
  "name_char c = (is_alpha c \<or> is_digit c \<or> c = 45 \<or> c = 95)"

definition match_alpha :: "name \<Rightarrow> bool" where
  \<comment> \<open>\<open>regexp.MatchString("[[:alpha:]]", resName)\<close>: unanchored, some letter occurs\<close>
  "match_alpha resName = list_ex is_alpha resName"

definition match_name :: "name \<Rightarrow> bool" where
  \<comment> \<open>\<open>regexp.MatchString("^[A-Za-z_][A-Za-z0-9\\-_]{1,47}$", resName)\<close>; without the
      flag \<open>m\<close>, \<open>$\<close> is the end of the text\<close>
  "match_name resName =
     (case resName of
        [] \<Rightarrow> False
      | c # cs \<Rightarrow> name_head c \<and> 1 \<le> length cs \<and> length cs \<le> 47 \<and> list_all name_char cs)"

definition validResourceName :: "name \<Rightarrow> error option" where
  \<comment> \<open>\<open>None\<close> is Go's nil error. Both patterns are constants that compile, so the two
      \<open>err != nil\<close> branches after \<open>MatchString\<close> are never taken.\<close>
  "validResourceName resName =
     (if resName = runes ''all'' then Some NameIsAll
      else if \<not> match_alpha resName then Some NameNoAlpha
      else if \<not> match_name resName then Some NameNoMatch
      else None)"

definition replace_invalid :: "name \<Rightarrow> name" where
  \<comment> \<open>\<open>regexp.MustCompile("[^A-Za-z0-9\\-_]").ReplaceAllLiteralString(name, "_")\<close>:
      each code point outside the class becomes one underscore\<close>
  "replace_invalid n = map (\<lambda>c. if name_char c then c else 95) n"

definition linstorifyResourceName :: "name \<Rightarrow> error + name" where
  "linstorifyResourceName n =
     (if validResourceName n = None then Inr n
      else let newName = replace_invalid n in
        if validResourceName newName = None then Inr newName
        else let newName = runes ''LS_'' @ newName in
          if validResourceName newName = None then Inr newName
          else Inl CouldNotLinstorify)"

subsection \<open>Volumes, resource definitions and the client\<close>

text \<open>
  Modelled from the spec: the declaration of \<open>volume.Info\<close> (pkg/volume) is not among
  the sources at hand. Section 3 of the specification gives the record its four fields;
  the code reads \<open>ID\<close>, \<open>Name\<close>, \<open>SizeBytes\<close> (an int64) and \<open>Parameters\<close>
  (a \<open>map[string]string\<close>). A \<open>*volume.Info\<close> is an \<open>Info option\<close>, \<open>None\<close> being
  the nil pointer.
\<close>

record Info =
  ID :: string
  Name :: string
  SizeBytes :: "64 word"
  Parameters :: "string \<rightharpoonup> string"

text \<open>The two fields of golinstor's \<open>ResDef\<close> that the client reads.\<close>

record Prop =
  Key :: string
  Value :: string

record ResDef =
  RscName :: string
  RscDfnProps :: "Prop list"

text \<open>
  golinstor's \<open>ResourceDeploymentConfig\<close>, with the fields the client sets. Its
  \<open>Name\<close> and \<open>Controllers\<close> are written \<open>cfgName\<close> and \<open>cfgControllers\<close>, apart
  from the fields of the same name of \<open>Info\<close> and \<open>LinstorConfig\<close>. A nil slice is the
  empty list. The log writer is not modelled.
\<close>

record ResourceDeploymentConfig =
  cfgName :: string
  NodeList :: "string list"
  LayerList :: "string list"
  ClientList :: "string list"
  ReplicasOnSame :: "string list"
  ReplicasOnDifferent :: "string list"
  AutoPlace :: "64 word"
  DoNotPlaceWithRegex :: string
  StoragePool :: string
  DisklessStoragePool :: string
  Encryption :: bool
  SizeKiB :: "64 word"
  cfgControllers :: string
  Annotations :: "string \<rightharpoonup> string"

definition zeroConfig :: ResourceDeploymentConfig where
  \<comment> \<open>\<open>&lc.ResourceDeploymentConfig{}\<close>: Go's zero value\<close>
  "zeroConfig =
     \<lparr>cfgName = [], NodeList = [], LayerList = [], ClientList = [], ReplicasOnSame = [],
      ReplicasOnDifferent = [], AutoPlace = 0, DoNotPlaceWithRegex = [], StoragePool = [],
      DisklessStoragePool = [], Encryption = False, SizeKiB = 0, cfgControllers = [],
      Annotations = Map.empty\<rparr>"

record LinstorConfig =
  Debug :: bool
  Controllers :: string

text \<open>\<open>Linstor\<close> embeds \<open>LinstorConfig\<close>; the logger is not modelled.\<close>

record Linstor = LinstorConfig +
  annotationsKey :: string
  fallbackPrefix :: string

definition NewLinstor :: "LinstorConfig \<Rightarrow> Linstor" where
  "NewLinstor cfg =
     \<lparr>Debug = Debug cfg, Controllers = Controllers cfg,
      annotationsKey = ''csi-volume-annotations'', fallbackPrefix = ''csi-''\<rparr>"

definition NodeListKey :: string where "NodeListKey = ''nodelist''"
definition LayerListKey :: string where "LayerListKey = ''layerlist''"
definition ClientListKey :: string where "ClientListKey = ''clientlist''"
definition ReplicasOnSameKey :: string where "ReplicasOnSameKey = ''replicasonsame''"
definition ReplicasOnDifferentKey :: string where "ReplicasOnDifferentKey = ''replicasondifferent''"
definition AutoPlaceKey :: string where "AutoPlaceKey = ''autoplace''"
definition DoNotPlaceWithRegexKey :: string where "DoNotPlaceWithRegexKey = ''donotplacewithregex''"
definition StoragePoolKey :: string where "StoragePoolKey = ''storagepool''"
definition DisklessStoragePoolKey :: string where "DisklessStoragePoolKey = ''disklessstoragepool''"
definition EncryptionKey :: string where "EncryptionKey = ''encryption''"

subsection \<open>What the client calls in Go's standard library\<close>

text \<open>
  \<open>strings.ToLower\<close> (Unicode case tables) and \<open>encoding/json\<close> are not part of the
  program. They are parameters of the model: the theorems on decoding, on the config and
  on the lookups hold whatever these three functions compute. The round trip of a volume
  is proved for the model of \<open>encoding/json\<close> given further down. \<open>Unmarshal\<close> takes
  the document and the value it decodes into.
\<close>

record golib =
  ToLower :: "string \<Rightarrow> string"
  Marshal :: "Info \<Rightarrow> error + string"
  Unmarshal :: "string \<Rightarrow> Info \<Rightarrow> error + Info"

fun Split :: "string \<Rightarrow> char \<Rightarrow> string list" where
  \<comment> \<open>\<open>strings.Split(s, sep)\<close> for a separator of one byte: never an empty slice\<close>
  "Split [] sep = [[]]"
| "Split (c # cs) sep =
     (if c = sep then [] # Split cs sep
      else (case Split cs sep of [] \<Rightarrow> [[c]] | w # ws \<Rightarrow> (c # w) # ws))"

definition digit_val :: "char \<Rightarrow> nat option" where
  "digit_val c =
     (let n = (of_char c :: nat) in if 48 \<le> n \<and> n \<le> 57 then Some (n - 48) else None)"

fun decimal :: "nat \<Rightarrow> string \<Rightarrow> nat option" where
  "decimal acc [] = Some acc"
| "decimal acc (c # cs) =
     (case digit_val c of None \<Rightarrow> None | Some d \<Rightarrow> decimal (10 * acc + d) cs)"

definition ParseUint :: "string \<Rightarrow> 64 word option" where
  \<comment> \<open>\<open>strconv.ParseUint(v, 10, 64)\<close>: a non-empty run of decimal digits, no sign, whose
      value fits 64 bits; \<open>None\<close> stands for its syntax and range errors\<close>
  "ParseUint v =
     (if v = [] then None
      else (case decimal 0 v of
              None \<Rightarrow> None
            | Some n \<Rightarrow> if n < 2 ^ 64 then Some (word_of_nat n) else None))"

subsection \<open>Package data\<close>

text \<open>
  Modelled from the spec: package \<open>data\<close> (github.com/haySwim/data) is not among the
  sources at hand. Section 4.2 of the specification and the comment above the call say
  what it computes: \<open>NewKibiByte\<close> rounds a byte count up to whole KiB (1025 bytes need
  2 KiB), \<open>Value\<close> is the number of units and \<open>InclusiveBytes\<close> the bytes they hold.
  Sizes are mathematical integers here.
\<close>

type_synonym ByteSize = int

datatype KibiByte = KibiByte int

datatype Byte = Byte int

definition NewKibiByte :: "ByteSize \<Rightarrow> KibiByte" where
  "NewKibiByte b = KibiByte (- ((- b) div 1024))"

definition NewByte :: "ByteSize \<Rightarrow> Byte" where
  "NewByte b = Byte b"

fun Value_KiB :: "KibiByte \<Rightarrow> int" where
  "Value_KiB (KibiByte n) = n"

fun InclusiveBytes_KiB :: "KibiByte \<Rightarrow> ByteSize" where
  "InclusiveBytes_KiB (KibiByte n) = n * 1024"

fun InclusiveBytes_B :: "Byte \<Rightarrow> ByteSize" where
  "InclusiveBytes_B (Byte n) = n"

subsection \<open>ListAll and AllocationSizeKiB\<close>

definition ListAll :: "Linstor \<Rightarrow> (string \<rightharpoonup> string) \<Rightarrow> error + Info list" where
  \<comment> \<open>\<open>return nil, nil\<close>: the nil slice is the empty list\<close>
  "ListAll s parameters = Inr []"

definition AllocationSizeKiB :: "Linstor \<Rightarrow> 64 word \<Rightarrow> 64 word \<Rightarrow> 64 word \<times> error option" where
  \<comment> \<open>Go returns both values; the second component is the error, \<open>None\<close> for nil\<close>
  "AllocationSizeKiB s requiredBytes limitBytes =
     (let requestedSize = sint requiredBytes;
          minVolumeSize = 4096;
          maxVolumeSize = sint limitBytes;
          unlimited = (maxVolumeSize = 0)
      in if minVolumeSize > maxVolumeSize \<and> \<not> unlimited then (0, Some MinimumExceedsLimit)
         else
           let requestedSize = (if requestedSize < minVolumeSize then minVolumeSize else requestedSize);
               volumeSize = NewKibiByte (InclusiveBytes_KiB (NewKibiByte requestedSize));
               limit = NewByte maxVolumeSize
           in if InclusiveBytes_KiB volumeSize > InclusiveBytes_B limit \<and> \<not> unlimited
              then (word_of_int (Value_KiB volumeSize), Some SizeLimited)
              else (word_of_int (Value_KiB volumeSize), None))"

subsection \<open>The codec: resDefToVolume and resDeploymentConfigFromVolumeInfo\<close>

definition blankInfo :: Info where
  \<comment> \<open>\<open>&volume.Info{Parameters: make(map[string]string)}\<close>\<close>
  "blankInfo = \<lparr>ID = [], Name = [], SizeBytes = 0, Parameters = Map.empty\<rparr>"

definition auxKey :: "Linstor \<Rightarrow> string" where
  \<comment> \<open>\<open>"Aux/"+s.annotationsKey\<close>\<close>
  "auxKey s = ''Aux/'' @ annotationsKey s"

fun scanProps :: "golib \<Rightarrow> Linstor \<Rightarrow> Prop list \<Rightarrow> error + Info option" where
  \<comment> \<open>the loop over \<open>resDef.RscDfnProps\<close>: the first property with the key decides\<close>
  "scanProps L s [] = Inr None"
| "scanProps L s (p # ps) =
     (if Key p = auxKey s then
        (case Unmarshal L (Value p) blankInfo of
           Inl err \<Rightarrow> Inl UnmarshalFailed
         | Inr vol \<Rightarrow> if Name vol = [] then Inl NameExtractFailed else Inr (Some vol))
      else scanProps L s ps)"

definition resDefToVolume :: "golib \<Rightarrow> Linstor \<Rightarrow> ResDef \<Rightarrow> error + Info option" where
  "resDefToVolume L s resDef = scanProps L s (RscDfnProps resDef)"

definition paramCase :: "golib \<Rightarrow> ResourceDeploymentConfig \<Rightarrow> string \<Rightarrow> string
    \<Rightarrow> error + ResourceDeploymentConfig" where
  \<comment> \<open>the \<open>switch strings.ToLower(k)\<close> of one loop round; a key of no case changes nothing\<close>
  "paramCase L cfg k v =
     (let key = ToLower L k in
      if key = NodeListKey then Inr (cfg\<lparr>NodeList := Split v (CHR '' '')\<rparr>)
      else if key = LayerListKey then Inr (cfg\<lparr>LayerList := Split v (CHR '' '')\<rparr>)
      else if key = ReplicasOnSameKey then Inr (cfg\<lparr>ReplicasOnSame := Split v (CHR '' '')\<rparr>)
      else if key = ReplicasOnDifferentKey then
        Inr (cfg\<lparr>ReplicasOnDifferent := Split v (CHR '' '')\<rparr>)
      else if key = StoragePoolKey then Inr (cfg\<lparr>StoragePool := v\<rparr>)
      else if key = DisklessStoragePoolKey then Inr (cfg\<lparr>DisklessStoragePool := v\<rparr>)
      else if key = AutoPlaceKey then
        (let v = (if v = [] then ''0'' else v) in
         case ParseUint v of
           None \<Rightarrow> Inl (AutoPlaceNotInteger v)
         | Some autoplace \<Rightarrow> Inr (cfg\<lparr>AutoPlace := autoplace\<rparr>))
      else if key = DoNotPlaceWithRegexKey then Inr (cfg\<lparr>DoNotPlaceWithRegex := v\<rparr>)
      else if key = EncryptionKey then
        (if ToLower L v = ''true'' then Inr (cfg\<lparr>Encryption := True\<rparr>) else Inr cfg)
      else Inr cfg)"

fun rangeParameters :: "golib \<Rightarrow> (string \<rightharpoonup> string) \<Rightarrow> string list
    \<Rightarrow> ResourceDeploymentConfig \<Rightarrow> error + ResourceDeploymentConfig" where
  \<comment> \<open>\<open>for k, v := range vol.Parameters\<close>: Go leaves the order of the keys open, so the
      order of one run is an argument, the list \<open>ks\<close> of the map's keys\<close>
  "rangeParameters L m [] cfg = Inr cfg"
| "rangeParameters L m (k # ks) cfg =
     (case m k of
        None \<Rightarrow> rangeParameters L m ks cfg
      | Some v \<Rightarrow>
          (case paramCase L cfg k v of
             Inl err \<Rightarrow> Inl err
           | Inr cfg' \<Rightarrow> rangeParameters L m ks cfg'))"

definition resDeploymentConfigFromVolumeInfo :: "golib \<Rightarrow> Linstor \<Rightarrow> string list \<Rightarrow> Info
    \<Rightarrow> error + ResourceDeploymentConfig" where
  \<comment> \<open>Go's \<open>/\<close> on int64 truncates towards zero (\<open>sdiv\<close>); \<open>uint64(...)\<close> keeps the bits\<close>
  "resDeploymentConfigFromVolumeInfo L s ks vol =
     (let cfg = zeroConfig\<lparr>cfgControllers := Controllers s, cfgName := ID vol,
                  SizeKiB := word_of_int (sint (SizeBytes vol) sdiv 1024 + 1)\<rparr>
      in case rangeParameters L (Parameters vol) ks cfg of
           Inl err \<Rightarrow> Inl err
         | Inr cfg \<Rightarrow>
             (case Marshal L vol of
                Inl err \<Rightarrow> Inl err
              | Inr serializedVol \<Rightarrow>
                  Inr (cfg\<lparr>Annotations := [annotationsKey s \<mapsto> serializedVol]\<rparr>)))"

subsection \<open>Lookups\<close>

text \<open>
  \<open>r.ListResourceDefinitions()\<close> is a call to the storage controller; its answer, an
  error or the list of resource definitions, is the argument \<open>listing\<close>.
\<close>

fun scanByName :: "golib \<Rightarrow> Linstor \<Rightarrow> string \<Rightarrow> ResDef list \<Rightarrow> error + Info option" where
  "scanByName L s n [] = Inr None"
| "scanByName L s n (rd # rest) =
     (case resDefToVolume L s rd of
        Inl err \<Rightarrow> Inl err
      | Inr None \<Rightarrow> scanByName L s n rest
      | Inr (Some vol) \<Rightarrow>
          if Name vol = n then Inr (Some vol)
          else if Name vol = fallbackPrefix s @ n then Inr (Some vol)
          else scanByName L s n rest)"

definition GetByName :: "golib \<Rightarrow> Linstor \<Rightarrow> error + ResDef list \<Rightarrow> string
    \<Rightarrow> error + Info option" where
  "GetByName L s listing n =
     (case listing of Inl err \<Rightarrow> Inl err | Inr list \<Rightarrow> scanByName L s n list)"

text \<open>
  \<open>GetByID\<close> reads \<open>vol.ID\<close> without a nil check. Reading a field through a nil pointer
  is a run-time panic in Go, not an error value: the outcome \<open>Panics\<close>.
\<close>

datatype 'a outcome = Returns 'a | Panics

fun scanByID :: "golib \<Rightarrow> Linstor \<Rightarrow> string \<Rightarrow> ResDef list \<Rightarrow> (error + Info option) outcome" where
  "scanByID L s i [] = Returns (Inr None)"
| "scanByID L s i (rd # rest) =
     (case resDefToVolume L s rd of
        Inl err \<Rightarrow> Returns (Inl err)
      | Inr vol \<Rightarrow>
          if RscName rd = i then Returns (Inr vol)
          else (case vol of
                  None \<Rightarrow> Panics
                | Some v \<Rightarrow> if ID v = i then Returns (Inr vol) else scanByID L s i rest))"

definition GetByID :: "golib \<Rightarrow> Linstor \<Rightarrow> error + ResDef list \<Rightarrow> string
    \<Rightarrow> (error + Info option) outcome" where
  "GetByID L s listing i =
     (case listing of Inl err \<Rightarrow> Returns (Inl err) | Inr list \<Rightarrow> scanByID L s i list)"

subsection \<open>Package encoding/json\<close>

text \<open>
  Modelled from the spec: Go's package \<open>encoding/json\<close> is not among the sources at hand,
  and neither are the struct tags of \<open>volume.Info\<close>. The specification calls the codec a
  JSON-like serialization of the whole record (sections 2 and 4.3). The encoder below
  follows the package's documented output for a struct of two strings, an int64 and a
  \<open>map[string]string\<close>: the fields in order, the map's keys sorted, every string quoted,
  with the short escapes for the quote, the backslash, newline, carriage return and tab,
  \<open>u00XX\<close> escapes for the other control characters and for \<open><\<close>, \<open>>\<close> and \<open>&\<close>,
  \<open>u2028\<close> and \<open>u2029\<close> for the two line separators, and \<open>ufffd\<close> in place of every
  byte that does not start a valid UTF-8 sequence. The decoder reads the documents of the
  shape the encoder writes (no white space, the four keys in this order, no surrogate
  escapes); any other document is an error here, where the package accepts more. A nil map
  is not told apart from the empty map.
\<close>

definition byte :: "char \<Rightarrow> nat" where
  "byte c = of_char c"

definition dq :: char where "dq = CHR 0x22"
definition bs :: char where "bs = CHR 0x5C"

text \<open>Go's table of valid UTF-8: the width of the multi-byte sequence at the head, 0 if none.\<close>

definition cont :: "char \<Rightarrow> bool" where
  "cont c = (128 \<le> byte c \<and> byte c \<le> 191)"

definition two :: "char \<Rightarrow> char \<Rightarrow> bool" where
  "two a b = (194 \<le> byte a \<and> byte a \<le> 223 \<and> cont b)"

definition three :: "char \<Rightarrow> char \<Rightarrow> char \<Rightarrow> bool" where
  "three a b c =
     (((byte a = 224 \<and> 160 \<le> byte b \<and> byte b \<le> 191)
       \<or> (225 \<le> byte a \<and> byte a \<le> 236 \<and> cont b)
       \<or> (byte a = 237 \<and> 128 \<le> byte b \<and> byte b \<le> 159)
       \<or> (238 \<le> byte a \<and> byte a \<le> 239 \<and> cont b))
      \<and> cont c)"

definition four :: "char \<Rightarrow> char \<Rightarrow> char \<Rightarrow> char \<Rightarrow> bool" where
  "four a b c d =
     (((byte a = 240 \<and> 144 \<le> byte b \<and> byte b \<le> 191)
       \<or> (241 \<le> byte a \<and> byte a \<le> 243 \<and> cont b)
       \<or> (byte a = 244 \<and> 128 \<le> byte b \<and> byte b \<le> 143))
      \<and> cont c \<and> cont d)"

fun runeWidth :: "string \<Rightarrow> nat" where
  "runeWidth (a # b # c # d # r) =
     (if two a b then 2 else if three a b c then 3 else if four a b c d then 4 else 0)"
| "runeWidth [a, b, c] = (if two a b then 2 else if three a b c then 3 else 0)"
| "runeWidth [a, b] = (if two a b then 2 else 0)"
| "runeWidth r = 0"

text \<open>A string is valid UTF-8 when it splits into ASCII bytes and valid sequences.\<close>

function utf8 :: "string \<Rightarrow> bool" where
  "utf8 [] = True"
| "utf8 (c # cs) =
     (if byte c < 128 then utf8 cs
      else let n = runeWidth (c # cs) in n \<noteq> 0 \<and> utf8 (drop (n - 1) cs))"
  by pat_completeness auto
termination
  by (relation "measure length") auto

text \<open>The encoder of a string.\<close>

definition hexdigit :: "nat \<Rightarrow> char" where
  "hexdigit d = (if d < 10 then char_of (48 + d) else char_of (87 + d))"

definition encByte :: "char \<Rightarrow> string" where
  "encByte c =
     (if c = dq \<or> c = bs then [bs, c]
      else if c = CHR 0x0A then [bs, CHR ''n'']
      else if c = CHR 0x0D then [bs, CHR ''r'']
      else if c = CHR 0x09 then [bs, CHR ''t'']
      else if byte c < 32 \<or> c = CHR ''<'' \<or> c = CHR ''>'' \<or> c = CHR ''&''
        then [bs, CHR ''u'', CHR ''0'', CHR ''0'', hexdigit (byte c div 16), hexdigit (byte c mod 16)]
      else [c])"

function encString :: "string \<Rightarrow> string" where
  "encString [] = []"
| "encString (c # cs) =
     (if byte c < 128 then encByte c @ encString cs
      else let n = runeWidth (c # cs) in
        if n = 0 then [bs, CHR ''u'', CHR ''f'', CHR ''f'', CHR ''f'', CHR ''d''] @ encString cs
        else if take n (c # cs) = [CHR 0xE2, CHR 0x80, CHR 0xA8]
          then [bs, CHR ''u'', CHR ''2'', CHR ''0'', CHR ''2'', CHR ''8''] @ encString (drop (n - 1) cs)
        else if take n (c # cs) = [CHR 0xE2, CHR 0x80, CHR 0xA9]
          then [bs, CHR ''u'', CHR ''2'', CHR ''0'', CHR ''2'', CHR ''9''] @ encString (drop (n - 1) cs)
        else take n (c # cs) @ encString (drop (n - 1) cs))"
  by pat_completeness auto
termination
  by (relation "measure length") auto

definition quote :: "string \<Rightarrow> string" where
  "quote s = dq # encString s @ [dq]"

text \<open>The decoder of a string, from behind the opening quote to the closing one.\<close>

definition hexval :: "char \<Rightarrow> nat option" where
  "hexval c =
     (let n = byte c in
      if 48 \<le> n \<and> n \<le> 57 then Some (n - 48)
      else if 97 \<le> n \<and> n \<le> 102 then Some (n - 87)
      else if 65 \<le> n \<and> n \<le> 70 then Some (n - 55)
      else None)"

definition hex4 :: "char \<Rightarrow> char \<Rightarrow> char \<Rightarrow> char \<Rightarrow> nat option" where
  "hex4 a b c d =
     (case (hexval a, hexval b, hexval c, hexval d) of
        (Some w, Some x, Some y, Some z) \<Rightarrow> Some (4096 * w + 256 * x + 16 * y + z)
      | _ \<Rightarrow> None)"

definition utf8enc :: "nat \<Rightarrow> string" where
  "utf8enc u =
     (if u < 128 then [char_of u]
      else if u < 2048 then [char_of (192 + u div 64), char_of (128 + u mod 64)]
      else [char_of (224 + u div 4096), char_of (128 + (u div 64) mod 64), char_of (128 + u mod 64)])"

definition unescape :: "char \<Rightarrow> char option" where
  "unescape e =
     (if e = dq \<or> e = bs \<or> e = CHR ''/'' then Some e
      else if e = CHR ''b'' then Some (CHR 0x08)
      else if e = CHR ''f'' then Some (CHR 0x0C)
      else if e = CHR ''n'' then Some (CHR 0x0A)
      else if e = CHR ''r'' then Some (CHR 0x0D)
      else if e = CHR ''t'' then Some (CHR 0x09)
      else None)"

definition prepend :: "string \<Rightarrow> (string \<times> string) option \<Rightarrow> (string \<times> string) option" where
  "prepend xs r = (case r of None \<Rightarrow> None | Some (d, rest) \<Rightarrow> Some (xs @ d, rest))"

fun decString :: "string \<Rightarrow> (string \<times> string) option" where
  "decString [] = None"
| "decString (c # cs) =
     (if c = dq then Some ([], cs)
      else if c = bs then
        (case cs of
           [] \<Rightarrow> None
         | e # r \<Rightarrow>
             if e = CHR ''u'' then
               (case r of
                  h1 # h2 # h3 # h4 # r' \<Rightarrow>
                    (case hex4 h1 h2 h3 h4 of
                       None \<Rightarrow> None
                     | Some u \<Rightarrow>
                         if 55296 \<le> u \<and> u < 57344 then None
                         else prepend (utf8enc u) (decString r'))
                | _ \<Rightarrow> None)
             else (case unescape e of None \<Rightarrow> None | Some x \<Rightarrow> prepend [x] (decString r)))
      else if byte c < 32 then None
      else prepend [c] (decString cs))"

text \<open>Integers in decimal.\<close>

definition digitChar :: "nat \<Rightarrow> char" where
  "digitChar d = char_of (48 + d)"

function showNat :: "nat \<Rightarrow> string" where
  "showNat n = (if n < 10 then [digitChar n] else showNat (n div 10) @ [digitChar (n mod 10)])"
  by pat_completeness auto
termination
  by (relation "measure id") auto

declare showNat.simps [simp del]

definition encInt :: "int \<Rightarrow> string" where
  "encInt i = (if i < 0 then CHR ''-'' # showNat (nat (- i)) else showNat (nat i))"

definition isDigit :: "char \<Rightarrow> bool" where
  "isDigit c = (digit_val c \<noteq> None)"

definition decInt :: "string \<Rightarrow> (64 word \<times> string) option" where
  "decInt s =
     (let neg = (case s of [] \<Rightarrow> False | c # r \<Rightarrow> c = CHR ''-'');
          t = (if neg then tl s else s);
          ds = takeWhile isDigit t
      in case (if ds = [] then None else decimal 0 ds) of
           None \<Rightarrow> None
         | Some n \<Rightarrow>
             let i = (if neg then - int n else int n)
             in if - (2 ^ 63) \<le> i \<and> i < 2 ^ 63
                then Some (word_of_int i, dropWhile isDigit t) else None)"

text \<open>The map: its entries under the sorted keys.\<close>

definition entry :: "(string \<rightharpoonup> string) \<Rightarrow> string \<Rightarrow> string" where
  "entry m k = quote k @ CHR '':'' # quote (the (m k))"

fun encEntries :: "(string \<rightharpoonup> string) \<Rightarrow> string list \<Rightarrow> string" where
  "encEntries m [] = []"
| "encEntries m [k] = entry m k"
| "encEntries m (k # ks) = entry m k @ CHR '','' # encEntries m ks"

definition encMap :: "(string \<rightharpoonup> string) \<Rightarrow> string" where
  "encMap m = CHR ''{'' # encEntries m (sorted_list_of_set (dom m)) @ ''}''"

text \<open>
  The decoder of the entries calls itself on what \<open>decString\<close> leaves, which is shorter
  than what \<open>decString\<close> was given.
\<close>

lemma prepend_Some: "prepend xs r = Some (d, rest) \<longleftrightarrow> (\<exists>d'. r = Some (d', rest) \<and> d = xs @ d')"
  by (auto simp: prepend_def split: option.splits)

lemma decString_shorter: "decString s = Some (d, r) \<Longrightarrow> length r < length s"
proof (induction "length s" arbitrary: s d r rule: less_induct)
  case less
  show ?case
  proof (cases s)
    case Nil
    with less.prems show ?thesis by simp
  next
    case (Cons c cs)
    note ih = less.hyps [unfolded Cons]
    from less.prems Cons show ?thesis
      by (auto simp: prepend_Some split: if_splits list.splits option.splits dest!: ih [rotated])
  qed
qed

function decEntries :: "(string \<rightharpoonup> string) \<Rightarrow> string \<Rightarrow> ((string \<rightharpoonup> string) \<times> string) option" where
  "decEntries m [] = None"
| "decEntries m (q # s1) =
     (if q \<noteq> dq then None
      else case decString s1 of
        None \<Rightarrow> None
      | Some (k, s2) \<Rightarrow>
          (case s2 of
             c1 # q2 # s3 \<Rightarrow>
               if c1 \<noteq> CHR '':'' \<or> q2 \<noteq> dq then None
               else (case decString s3 of
                 None \<Rightarrow> None
               | Some (v, s4) \<Rightarrow>
                   (case s4 of
                      [] \<Rightarrow> None
                    | x # s5 \<Rightarrow>
                        if x = CHR '','' then decEntries (m(k \<mapsto> v)) s5
                        else if x = CHR ''}'' then Some (m(k \<mapsto> v), s5)
                        else None))
           | _ \<Rightarrow> None))"
  by pat_completeness auto
termination
  by (relation "measure (\<lambda>(m, s). length s)") (auto dest!: decString_shorter)

definition decMap :: "(string \<rightharpoonup> string) \<Rightarrow> string \<Rightarrow> ((string \<rightharpoonup> string) \<times> string) option" where
  "decMap m s =
     (if take 4 s = ''null'' then Some (Map.empty, drop 4 s)
      else case s of
        c # d # r \<Rightarrow>
          if c \<noteq> CHR ''{'' then None
          else if d = CHR ''}'' then Some (m, r)
          else decEntries m (d # r)
      | _ \<Rightarrow> None)"

text \<open>The document of a volume, and the library made of the two functions.\<close>

definition expect :: "string \<Rightarrow> string \<Rightarrow> string option" where
  "expect p s = (if take (length p) s = p then Some (drop (length p) s) else None)"

definition Marshal_json :: "Info \<Rightarrow> error + string" where
  \<open>Marshal_json v =
     Inr (''{"name":'' @ quote (Name v) @ '',"id":'' @ quote (ID v)
          @ '',"sizeBytes":'' @ encInt (sint (SizeBytes v))
          @ '',"parameters":'' @ encMap (Parameters v) @ ''}'')\<close>

definition Unmarshal_json :: "string \<Rightarrow> Info \<Rightarrow> error + Info" where
  \<open>Unmarshal_json doc into =
     (case do {
             r1 \<leftarrow> expect ''{"name":"'' doc;
             (nm, r2) \<leftarrow> decString r1;
             r3 \<leftarrow> expect '',"id":"'' r2;
             (i, r4) \<leftarrow> decString r3;
             r5 \<leftarrow> expect '',"sizeBytes":'' r4;
             (n, r6) \<leftarrow> decInt r5;
             r7 \<leftarrow> expect '',"parameters":'' r6;
             (m, r8) \<leftarrow> decMap (Parameters into) r7;
             if r8 = ''}'' then Some (into\<lparr>ID := i, Name := nm, SizeBytes := n, Parameters := m\<rparr>)
             else None
           } of
        None \<Rightarrow> Inl (External ''json: cannot unmarshal'')
      | Some v \<Rightarrow> Inr v)\<close>

definition jsonLib :: "(string \<Rightarrow> string) \<Rightarrow> golib" where
  "jsonLib lower = \<lparr>ToLower = lower, Marshal = Marshal_json, Unmarshal = Unmarshal_json\<rparr>"

subsection \<open>Notions of the specification\<close>

text \<open>
  The rounded allocation of section 4.2, in the specification's words: the larger of the
  required size and the 4096-byte minimum, divided by 1024 and rounded up.
\<close>

definition spec_roundedKiB :: "64 word \<Rightarrow> int" where
  "spec_roundedKiB requiredBytes = - ((- (max (sint requiredBytes) 4096)) div 1024)"

text \<open>The ceiling of \<open>SizeBytes / 1024\<close>, which section 4.3 asks of the config's size.\<close>

definition spec_ceilKiB :: "64 word \<Rightarrow> int" where
  "spec_ceilKiB sizeBytes = - ((- sint sizeBytes) div 1024)"

text \<open>
  The JSON library reads back what it wrote for \<open>v\<close>: marshalling succeeds, and
  unmarshalling the document into the blank record gives \<open>v\<close> again.
\<close>

definition json_reads_back :: "golib \<Rightarrow> Info \<Rightarrow> bool" where
  "json_reads_back L v =
     (case Marshal L v of Inl err \<Rightarrow> False | Inr a \<Rightarrow> Unmarshal L a blankInfo = Inr v)"


text \<open>
  A resource definition at which the loop of \<open>GetByID\<close> returns: decoding fails, or
  the resource name or the decoded volume's ID is the one looked for.
\<close>

definition returnsByID :: "golib \<Rightarrow> Linstor \<Rightarrow> string \<Rightarrow> ResDef \<Rightarrow> bool" where
  "returnsByID L s i rd =
     (case resDefToVolume L s rd of
        Inl err \<Rightarrow> True
      | Inr None \<Rightarrow> RscName rd = i
      | Inr (Some vol) \<Rightarrow> RscName rd = i \<or> ID vol = i)"

text \<open>
  A volume whose strings are valid UTF-8: the ID, the name, and the keys and values of the
  parameters, of which there are finitely many, as in every Go map.
\<close>

definition utf8Volume :: "Info \<Rightarrow> bool" where
  "utf8Volume v =
     (utf8 (ID v) \<and> utf8 (Name v) \<and> finite (dom (Parameters v))
      \<and> (\<forall>k\<in>dom (Parameters v). utf8 k \<and> utf8 (the (Parameters v k))))"

text \<open>The map that results from storing the entries of \<open>m\<close> under the keys \<open>ks\<close>.\<close>

fun putAll :: "(string \<rightharpoonup> string) \<Rightarrow> string list \<Rightarrow> (string \<rightharpoonup> string) \<Rightarrow> (string \<rightharpoonup> string)" where
  "putAll m [] m0 = m0"
| "putAll m (k # ks) m0 = putAll m ks (m0(k \<mapsto> the (m k)))"

subsection \<open>Sample data\<close>

text \<open>
  Concrete values for the examples: a client as \<open>NewLinstor\<close> builds it, two volumes
  (the second with an empty name), and the answers of the standard library on them.
  \<open>sampleLib\<close> lowers ASCII letters, as \<open>strings.ToLower\<close> does on ASCII strings, and
  knows the JSON documents of the two volumes only. The keys of the documents stand for
  the struct tags of \<open>volume.Info\<close>; no theorem depends on them.
\<close>

definition sampleClient :: Linstor where
  "sampleClient = NewLinstor \<lparr>Debug = False, Controllers = ''10.0.0.1:3370''\<rparr>"

definition volA :: Info where
  "volA = \<lparr>ID = ''vol1'', Name = ''csi-myname'', SizeBytes = 2048,
           Parameters = [''AutoPlace'' \<mapsto> ''2'']\<rparr>"

definition volB :: Info where
  "volB = \<lparr>ID = ''vol2'', Name = [], SizeBytes = 2048, Parameters = Map.empty\<rparr>"

definition docA :: string where
  \<open>docA = ''{"name":"csi-myname","id":"vol1","sizeBytes":2048,"parameters":{"AutoPlace":"2"}}''\<close>

definition docB :: string where
  \<open>docB = ''{"name":"","id":"vol2","sizeBytes":2048,"parameters":{}}''\<close>

definition asciiLower :: "string \<Rightarrow> string" where
  "asciiLower str =
     map (\<lambda>c. let n = (of_char c :: nat) in if 65 \<le> n \<and> n \<le> 90 then char_of (n + 32) else c) str"

definition sampleLib :: golib where
  "sampleLib =
     \<lparr>ToLower = asciiLower,
      Marshal = (\<lambda>v. if v = volA then Inr docA else if v = volB then Inr docB
                     else Inl (External ''json: not a sample volume'')),
      Unmarshal = (\<lambda>doc into. if doc = docA then Inr volA else if doc = docB then Inr volB
                     else Inl (External ''json: not a sample document''))\<rparr>"

definition annotated :: "string \<Rightarrow> string \<Rightarrow> ResDef" where
  \<comment> \<open>a resource definition that carries the document under the client's key\<close>
  "annotated rscName doc =
     \<lparr>RscName = rscName,
      RscDfnProps = [\<lparr>Key = ''DrbdOptions/auto-quorum'', Value = ''io-error''\<rparr>,
                     \<lparr>Key = ''Aux/csi-volume-annotations'', Value = doc\<rparr>]\<rparr>"

definition foreignResDef :: ResDef where
  \<comment> \<open>a resource definition that somebody else created: no annotation\<close>
  "foreignResDef =
     \<lparr>RscName = ''backup'',
      RscDfnProps = [\<lparr>Key = ''DrbdOptions/auto-quorum'', Value = ''io-error''\<rparr>]\<rparr>"

text \<open>
  Three more volumes: one whose name is a byte that is not valid UTF-8, with the document
  the encoder writes for it; one whose \<open>autoplace\<close> parameter is not a number; and one
  whose ID, the backend resource name, is \<open>csi-myname\<close> while its name is \<open>data\<close>.
\<close>

definition volC :: Info where
  "volC = \<lparr>ID = ''vol3'', Name = [CHR 0xFF], SizeBytes = 2048, Parameters = Map.empty\<rparr>"

definition docC :: string where
  \<open>docC = ''{"name":"'' @ [CHR 0x5C] @ ''ufffd","id":"vol3","sizeBytes":2048,"parameters":{}}''\<close>

definition volD :: Info where
  "volD = \<lparr>ID = ''vol4'', Name = ''data'', SizeBytes = 2048,
           Parameters = [''autoplace'' \<mapsto> ''many'']\<rparr>"

definition volE :: Info where
  "volE = \<lparr>ID = ''csi-myname'', Name = ''data'', SizeBytes = 2048, Parameters = Map.empty\<rparr>"

definition docE :: string where
  \<open>docE = ''{"name":"data","id":"csi-myname","sizeBytes":2048,"parameters":{}}''\<close>

section \<open>Resource names\<close>

lemmas name_defs = linstorifyResourceName_def validResourceName_def runes_def match_alpha_def
  match_name_def replace_invalid_def name_char_def name_head_def is_alpha_def is_digit_def

text \<open>Every name that \<open>linstorifyResourceName\<close> returns has passed \<open>validResourceName\<close>.\<close>

lemma linstorify_valid:
  "linstorifyResourceName x = Inr r \<Longrightarrow> validResourceName r = None"
  by (auto simp: linstorifyResourceName_def Let_def split: if_splits)

text \<open>
  C3, as stated: \<open>linstorifyResourceName("all")\<close> and \<open>linstorifyResourceName("")\<close>
  return an error. They do not. Both inputs fail \<open>validResourceName\<close>, and so does the
  result of the replacement (nothing is replaced), but the third attempt puts \<open>LS_\<close> in
  front, and \<open>LS_all\<close> and \<open>LS_\<close> are valid names: the function returns them with a
  nil error.
\<close>

theorem linstorify_all_and_empty_counterexample:
  "linstorifyResourceName (runes ''all'') = Inr (runes ''LS_all'')
   \<and> linstorifyResourceName (runes []) = Inr (runes ''LS_'')"
  by (simp add: name_defs)

text \<open>
  C3, amended: the reserved name \<open>all\<close> and the empty name are rejected by
  \<open>validResourceName\<close>; \<open>linstorifyResourceName\<close> does not fail on them, it returns
  \<open>LS_all\<close> and \<open>LS_\<close>, which are valid.
\<close>

theorem valid_rejects_all_and_empty:
  "validResourceName (runes ''all'') = Some NameIsAll
   \<and> validResourceName (runes []) = Some NameNoAlpha
   \<and> linstorifyResourceName (runes ''all'') = Inr (runes ''LS_all'')
   \<and> validResourceName (runes ''LS_all'') = None
   \<and> linstorifyResourceName (runes []) = Inr (runes ''LS_'')
   \<and> validResourceName (runes ''LS_'') = None"
  by (simp add: name_defs)

text \<open>
  C5: canonicalization is idempotent. Whenever \<open>linstorifyResourceName\<close> succeeds on
  \<open>x\<close> with the name \<open>r\<close>, it succeeds on \<open>r\<close> and returns \<open>r\<close> unchanged.
\<close>

theorem linstorify_idempotent:
  "linstorifyResourceName x = Inr r \<Longrightarrow> linstorifyResourceName r = Inr r"
  by (drule linstorify_valid) (simp add: linstorifyResourceName_def)

theorem linstorify_idempotent_witness:
  "linstorifyResourceName (runes ''my.volume!name'') = Inr (runes ''my_volume_name'')
   \<and> linstorifyResourceName (runes ''my_volume_name'') = Inr (runes ''my_volume_name'')"
proof -
  have h: "linstorifyResourceName (runes ''my.volume!name'') = Inr (runes ''my_volume_name'')"
    by (simp add: name_defs)
  from linstorify_idempotent [OF h] h show ?thesis by simp
qed

section \<open>ListAll\<close>

text \<open>
  C10: \<open>ListAll\<close> returns nil and no error for every parameters map. The function has
  no access to the controller's listing (it is not among its arguments), and the result
  holds no volume.
\<close>

theorem ListAll_nil: "ListAll s parameters = Inr []"
  by (simp add: ListAll_def)

section \<open>Allocation sizes\<close>

lemmas alloc_defs = AllocationSizeKiB_def NewKibiByte_def NewByte_def

text \<open>
  C2, as stated: \<open>AllocationSizeKiB(1025, 0)\<close> allocates 2 KiB. It does not: 1025 is
  below the 4096-byte minimum, the request is raised to the minimum before it is rounded,
  and the function returns 4.
\<close>

theorem AllocationSizeKiB_1025_counterexample:
  "AllocationSizeKiB sampleClient 1025 0 = (4, None)
   \<and> AllocationSizeKiB sampleClient 1025 0 \<noteq> (2, None)"
  by (simp add: alloc_defs)

text \<open>
  C2, amended: \<open>AllocationSizeKiB(1025, 0)\<close> succeeds with 4 KiB, the 4096-byte minimum;
  \<open>AllocationSizeKiB(100, 4096)\<close> succeeds with the same 4 KiB; and
  \<open>AllocationSizeKiB(5000, 4096)\<close> fails, since the 5 KiB it needs exceed the limit
  (the 5 is returned next to the error).
\<close>

theorem AllocationSizeKiB_examples:
  "AllocationSizeKiB s 1025 0 = (4, None)
   \<and> AllocationSizeKiB s 100 4096 = (4, None)
   \<and> AllocationSizeKiB s 5000 4096 = (5, Some SizeLimited)"
  by (simp add: alloc_defs)

text \<open>The rounded allocation is between 4 and \<open>2 ^ 53\<close> KiB, so it fits an int64.\<close>

lemma rounded_bounds: "4 \<le> spec_roundedKiB r \<and> spec_roundedKiB r \<le> 2 ^ 53"
proof -
  define x where "x = max (sint r) 4096"
  have "sint r < 2 ^ 63" using sint_lt [of r] by simp
  then have hi: "- (2 ^ 63) \<le> - x" and lo: "- x \<le> - 4096"
    by (simp_all add: x_def)
  have "(- (2 ^ 63)) div 1024 \<le> (- x) div (1024 :: int)"
    using hi by (rule zdiv_mono1) simp
  moreover have "(- x) div 1024 \<le> (- 4096) div (1024 :: int)"
    using lo by (rule zdiv_mono1) simp
  ultimately show ?thesis
    by (simp add: spec_roundedKiB_def x_def [symmetric])
qed

lemma sint_rounded: "sint (word_of_int (spec_roundedKiB r) :: 64 word) = spec_roundedKiB r"
proof -
  have "- (2 ^ 63) \<le> spec_roundedKiB r" "spec_roundedKiB r < 2 ^ 63"
    using rounded_bounds [of r] by simp_all
  then show ?thesis
    by (simp add: sint_sbintrunc' signed_take_bit_int_eq_self)
qed

text \<open>Rounding twice, as the code does, is rounding once.\<close>

lemma volumeSize_eq:
  "NewKibiByte (InclusiveBytes_KiB (NewKibiByte (if sint r < 4096 then 4096 else sint r)))
     = KibiByte (spec_roundedKiB r)"
  by (simp add: NewKibiByte_def spec_roundedKiB_def max_def)

lemma AllocationSizeKiB_eq:
  "AllocationSizeKiB s r l =
     (if sint l < 4096 \<and> l \<noteq> 0 then (0, Some MinimumExceedsLimit)
      else if sint l < spec_roundedKiB r * 1024 \<and> l \<noteq> 0
        then (word_of_int (spec_roundedKiB r), Some SizeLimited)
      else (word_of_int (spec_roundedKiB r), None))"
  by (simp add: AllocationSizeKiB_def NewByte_def volumeSize_eq Let_def signed_eq_0_iff)

text \<open>
  C7: \<open>AllocationSizeKiB\<close> returns an error exactly when the limit is not 0 and either
  the 4096-byte minimum or the rounded allocation exceeds it. When the minimum fits and
  the rounded allocation does not, the rounded size comes back next to the error; when
  there is no error, the rounded size is the result. (When the minimum itself exceeds the
  limit, the value next to the error is 0.)
\<close>

theorem AllocationSizeKiB_error_iff:
  "(snd (AllocationSizeKiB s r l) \<noteq> None
      \<longleftrightarrow> l \<noteq> 0 \<and> (sint l < 4096 \<or> sint l < spec_roundedKiB r * 1024))
   \<and> (l \<noteq> 0 \<and> 4096 \<le> sint l \<and> sint l < spec_roundedKiB r * 1024
      \<longrightarrow> snd (AllocationSizeKiB s r l) = Some SizeLimited
          \<and> sint (fst (AllocationSizeKiB s r l)) = spec_roundedKiB r)
   \<and> (l \<noteq> 0 \<and> sint l < 4096 \<longrightarrow> AllocationSizeKiB s r l = (0, Some MinimumExceedsLimit))
   \<and> (snd (AllocationSizeKiB s r l) = None
      \<longrightarrow> sint (fst (AllocationSizeKiB s r l)) = spec_roundedKiB r)"
  by (auto simp: AllocationSizeKiB_eq sint_rounded)

theorem AllocationSizeKiB_error_iff_witness:
  "snd (AllocationSizeKiB sampleClient 5000 4096) = Some SizeLimited
   \<and> sint (fst (AllocationSizeKiB sampleClient 5000 4096)) = 5
   \<and> AllocationSizeKiB sampleClient 5000 100 = (0, Some MinimumExceedsLimit)
   \<and> snd (AllocationSizeKiB sampleClient 5000 0) = None
   \<and> sint (fst (AllocationSizeKiB sampleClient 5000 0)) = 5"
  using AllocationSizeKiB_error_iff [of sampleClient 5000 4096]
    AllocationSizeKiB_error_iff [of sampleClient 5000 100]
    AllocationSizeKiB_error_iff [of sampleClient 5000 0]
  by (simp add: spec_roundedKiB_def)

section \<open>Decoding a resource definition\<close>

lemmas key_defs = NodeListKey_def LayerListKey_def ClientListKey_def ReplicasOnSameKey_def
  ReplicasOnDifferentKey_def AutoPlaceKey_def DoNotPlaceWithRegexKey_def StoragePoolKey_def
  DisklessStoragePoolKey_def EncryptionKey_def

lemmas sample_defs = sampleClient_def NewLinstor_def sampleLib_def volA_def volB_def docA_def
  docB_def annotated_def foreignResDef_def asciiLower_def char_of_eq_iff

lemmas codec_defs = resDefToVolume_def auxKey_def blankInfo_def
  resDeploymentConfigFromVolumeInfo_def zeroConfig_def paramCase_def ParseUint_def
  digit_val_def Let_def

lemma scanProps_absent:
  "\<forall>p\<in>set ps. Key p \<noteq> auxKey s \<Longrightarrow> scanProps L s ps = Inr None"
  by (induction ps) simp_all

text \<open>The first property under the key decides; what follows it is not read.\<close>

lemma scanProps_first:
  "\<forall>q\<in>set pre. Key q \<noteq> auxKey s \<Longrightarrow> Key p = auxKey s \<Longrightarrow>
   scanProps L s (pre @ p # post) =
     (case Unmarshal L (Value p) blankInfo of
        Inl err \<Rightarrow> Inl UnmarshalFailed
      | Inr vol \<Rightarrow> if Name vol = [] then Inl NameExtractFailed else Inr (Some vol))"
  by (induction pre) simp_all

text \<open>
  Whatever the JSON library does, a volume that \<open>resDefToVolume\<close> returns has a name
  that is not empty.
\<close>

lemma scanProps_named:
  "scanProps L s ps = Inr (Some v) \<Longrightarrow> Name v \<noteq> []"
  by (induction ps) (auto split: if_splits sum.splits)

lemma resDefToVolume_named:
  "resDefToVolume L s rd = Inr (Some v) \<Longrightarrow> Name v \<noteq> []"
  by (simp add: resDefToVolume_def scanProps_named)

text \<open>
  C8: a resource definition none of whose properties has the key \<open>Aux/\<close> followed by the
  annotation key decodes to nil with no error. When the key is present and the document
  unmarshals to a volume whose \<open>Name\<close> is empty, decoding is an error.
\<close>

theorem resDefToVolume_absent_or_nameless:
  "((\<forall>p\<in>set (RscDfnProps rd). Key p \<noteq> auxKey s) \<longrightarrow> resDefToVolume L s rd = Inr None)
   \<and> (RscDfnProps rd = pre @ p # post \<and> (\<forall>q\<in>set pre. Key q \<noteq> auxKey s) \<and> Key p = auxKey s
        \<and> Unmarshal L (Value p) blankInfo = Inr vol \<and> Name vol = []
      \<longrightarrow> resDefToVolume L s rd = Inl NameExtractFailed)"
  by (simp add: resDefToVolume_def scanProps_absent scanProps_first)

theorem resDefToVolume_absent_or_nameless_witness:
  "resDefToVolume sampleLib sampleClient foreignResDef = Inr None
   \<and> resDefToVolume sampleLib sampleClient (annotated ''vol2'' docB) = Inl NameExtractFailed"
  using resDefToVolume_absent_or_nameless [of foreignResDef sampleClient sampleLib
      "[\<lparr>Key = ''DrbdOptions/auto-quorum'', Value = ''io-error''\<rparr>]"
      "\<lparr>Key = ''Aux/csi-volume-annotations'', Value = docB\<rparr>" "[]" volB]
    resDefToVolume_absent_or_nameless [of "annotated ''vol2'' docB" sampleClient sampleLib
      "[\<lparr>Key = ''DrbdOptions/auto-quorum'', Value = ''io-error''\<rparr>]"
      "\<lparr>Key = ''Aux/csi-volume-annotations'', Value = docB\<rparr>" "[]" volB]
  by (simp add: sample_defs auxKey_def)

section \<open>The deployment config\<close>

lemma paramCase_SizeKiB:
  "paramCase L cfg k v = Inr cfg' \<Longrightarrow> SizeKiB cfg' = SizeKiB cfg"
  by (auto simp: paramCase_def Let_def split: if_splits option.splits)

lemma rangeParameters_SizeKiB:
  "rangeParameters L m ks cfg = Inr cfg' \<Longrightarrow> SizeKiB cfg' = SizeKiB cfg"
proof (induction ks arbitrary: cfg)
  case Nil
  then show ?case by simp
next
  case (Cons k ks)
  then show ?case
    by (auto split: option.splits sum.splits dest: paramCase_SizeKiB)
qed

text \<open>Whatever the parameters, the size of the config is the quotient plus one.\<close>

lemma config_SizeKiB:
  "resDeploymentConfigFromVolumeInfo L s ks vol = Inr cfg \<Longrightarrow>
   SizeKiB cfg = word_of_int (sint (SizeBytes vol) sdiv 1024 + 1)"
  by (auto simp: resDeploymentConfigFromVolumeInfo_def Let_def split: sum.splits
      dest!: rangeParameters_SizeKiB)

text \<open>
  For a size that is not negative, the quotient plus one is the ceiling when 1024 does not
  divide the size, and one more than the ceiling when it does.
\<close>

lemma plus_one_vs_ceiling:
  "0 \<le> sint b \<Longrightarrow>
   sint b sdiv 1024 + 1 = (if 1024 dvd sint b then spec_ceilKiB b + 1 else spec_ceilKiB b)"
proof -
  assume nonneg: "0 \<le> sint b"
  define x where "x = sint b"
  have sd: "x sdiv 1024 = x div 1024"
    using nonneg by (simp add: x_def signed_divide_int_def sgn_if)
  have "x div 1024 + 1 = (if 1024 dvd x then - ((- x) div 1024) + 1 else - ((- x) div 1024))"
    by (simp add: zdiv_zminus1_eq_if dvd_eq_mod_eq_0)
  then show ?thesis
    using sd by (simp add: spec_ceilKiB_def x_def)
qed

text \<open>
  C4: the config's \<open>SizeKiB\<close> should be the ceiling of \<open>SizeBytes / 1024\<close>, an extra KiB
  being added only when the division drops a remainder. The code adds the KiB always
  (the comment above the line asks for the ceiling as work to be done): a volume of 2048
  bytes gets a config of 3 KiB, where the ceiling is 2.
\<close>

theorem SizeKiB_2048_is_3:
  "(case resDeploymentConfigFromVolumeInfo sampleLib sampleClient [''AutoPlace''] volA of
      Inl err \<Rightarrow> None | Inr cfg \<Rightarrow> Some (SizeKiB cfg)) = Some 3
   \<and> spec_ceilKiB (SizeBytes volA) = 2"
  by (simp add: sample_defs codec_defs key_defs spec_ceilKiB_def)

section \<open>The model of encoding/json reads back what it writes\<close>

subsection \<open>Strings\<close>

lemma hexval_hexdigit: "d < 16 \<Longrightarrow> hexval (hexdigit d) = Some d"
  by (simp add: hexval_def hexdigit_def byte_def Let_def)

lemma prepend_prepend: "prepend xs (prepend ys r) = prepend (xs @ ys) r"
  by (simp add: prepend_def split: option.splits)

lemma prepend_Nil: "prepend [] r = r"
  by (simp add: prepend_def split: option.splits)

lemma hexval_zero: "hexval (CHR ''0'') = Some 0"
  by (simp add: hexval_def byte_def)

lemma hex4_byte:
  assumes "byte c < 128"
  shows "hex4 (CHR ''0'') (CHR ''0'') (hexdigit (byte c div 16)) (hexdigit (byte c mod 16))
      = Some (byte c)"
proof -
  have "byte c div 16 < 16" using assms by simp
  moreover have "byte c mod 16 < 16" by simp
  ultimately show ?thesis
    by (simp add: hex4_def hexval_hexdigit hexval_zero)
qed

lemma utf8enc_byte: "byte c < 128 \<Longrightarrow> utf8enc (byte c) = [c]"
  by (simp add: utf8enc_def byte_def)

lemma decString_escape_u:
  assumes "byte c < 128"
  shows "decString (bs # CHR ''u'' # CHR ''0'' # CHR ''0'' # hexdigit (byte c div 16)
            # hexdigit (byte c mod 16) # t) = prepend [c] (decString t)"
proof -
  have ne: "bs \<noteq> dq" by (simp add: dq_def bs_def)
  show ?thesis
    using assms ne by (simp add: hex4_byte utf8enc_byte)
qed

lemma decString_short_escape:
  "unescape e = Some x \<Longrightarrow> e \<noteq> CHR ''u'' \<Longrightarrow> decString (bs # e # t) = prepend [x] (decString t)"
  by (simp add: dq_def bs_def)

lemma decString_plain:
  "c \<noteq> dq \<Longrightarrow> c \<noteq> bs \<Longrightarrow> 32 \<le> byte c \<Longrightarrow> decString (c # t) = prepend [c] (decString t)"
  by simp

text \<open>An ASCII byte, however the encoder writes it, is read back as itself.\<close>

lemma decString_encByte:
  assumes "byte c < 128"
  shows "decString (encByte c @ t) = prepend [c] (decString t)"
proof -
  consider (q) "c = dq \<or> c = bs"
    | (n) "c = CHR 0x0A" | (r) "c = CHR 0x0D" | (t) "c = CHR 0x09"
    | (u) "c \<noteq> dq" "c \<noteq> bs" "c \<noteq> CHR 0x0A" "c \<noteq> CHR 0x0D" "c \<noteq> CHR 0x09"
        "byte c < 32 \<or> c = CHR ''<'' \<or> c = CHR ''>'' \<or> c = CHR ''&''"
    | (p) "c \<noteq> dq" "c \<noteq> bs" "c \<noteq> CHR 0x0A" "c \<noteq> CHR 0x0D" "c \<noteq> CHR 0x09"
        "\<not> (byte c < 32 \<or> c = CHR ''<'' \<or> c = CHR ''>'' \<or> c = CHR ''&'')"
    by blast
  then show ?thesis
  proof cases
    case q
    then have "encByte c = [bs, c]" by (simp add: encByte_def)
    moreover have "unescape c = Some c" "c \<noteq> CHR ''u''"
      using q by (auto simp: unescape_def dq_def bs_def)
    ultimately show ?thesis by (simp add: decString_short_escape del: decString.simps)
  next
    case n
    then have "encByte c = [bs, CHR ''n'']" by (simp add: encByte_def dq_def bs_def)
    moreover have "unescape (CHR ''n'') = Some c"
      using n by (simp add: unescape_def dq_def bs_def)
    ultimately show ?thesis by (simp add: decString_short_escape del: decString.simps)
  next
    case r
    then have "encByte c = [bs, CHR ''r'']" by (simp add: encByte_def dq_def bs_def)
    moreover have "unescape (CHR ''r'') = Some c"
      using r by (simp add: unescape_def dq_def bs_def)
    ultimately show ?thesis by (simp add: decString_short_escape del: decString.simps)
  next
    case t
    then have "encByte c = [bs, CHR ''t'']" by (simp add: encByte_def dq_def bs_def)
    moreover have "unescape (CHR ''t'') = Some c"
      using t by (simp add: unescape_def dq_def bs_def)
    ultimately show ?thesis by (simp add: decString_short_escape del: decString.simps)
  next
    case u
    then have "encByte c = [bs, CHR ''u'', CHR ''0'', CHR ''0'', hexdigit (byte c div 16),
        hexdigit (byte c mod 16)]"
      by (simp add: encByte_def)
    with assms show ?thesis by (simp add: decString_escape_u del: decString.simps)
  next
    case p
    then have "encByte c = [c]" by (simp add: encByte_def)
    with p show ?thesis by (simp add: decString_plain del: decString.simps)
  qed
qed

text \<open>A valid multi-byte sequence is made of bytes from 128 on, which the decoder copies.\<close>

lemma two_high: "two a b \<Longrightarrow> 128 \<le> byte a \<and> 128 \<le> byte b"
  by (simp add: two_def cont_def)

lemma three_high: "three a b c \<Longrightarrow> 128 \<le> byte a \<and> 128 \<le> byte b \<and> 128 \<le> byte c"
  by (auto simp: three_def cont_def)

lemma four_high:
  "four a b c d \<Longrightarrow> 128 \<le> byte a \<and> 128 \<le> byte b \<and> 128 \<le> byte c \<and> 128 \<le> byte d"
  by (auto simp: four_def cont_def)

lemma runeWidth_block:
  assumes "runeWidth s = n" and "n \<noteq> 0"
  shows "n \<le> length s \<and> (\<forall>x\<in>set (take n s). 128 \<le> byte x)"
proof (cases s rule: runeWidth.cases)
  case (1 a b c d r)
  with assms show ?thesis
    by (auto split: if_splits dest: two_high three_high four_high)
next
  case (2 a b c)
  with assms show ?thesis
    by (auto split: if_splits dest: two_high three_high)
next
  case (3 a b)
  with assms show ?thesis
    by (auto split: if_splits dest: two_high)
qed (insert assms, simp_all)

lemma decString_high:
  "\<forall>x\<in>set blk. 128 \<le> byte x \<Longrightarrow> decString (blk @ t) = prepend blk (decString t)"
proof (induction blk)
  case Nil
  then show ?case by (simp add: prepend_Nil)
next
  case (Cons x blk)
  then have "128 \<le> byte x" by simp
  then have "x \<noteq> dq" "x \<noteq> bs" "32 \<le> byte x"
    by (auto simp: dq_def bs_def byte_def)
  then have "decString ((x # blk) @ t) = prepend [x] (decString (blk @ t))"
    by (simp add: decString_plain del: decString.simps)
  with Cons show ?case by (simp add: prepend_prepend)
qed

lemma line_separators:
  "[char_of (226 :: nat), char_of (128 :: nat), char_of (168 :: nat)] = [CHR 0xE2, CHR 0x80, CHR 0xA8]"
  "[char_of (226 :: nat), char_of (128 :: nat), char_of (169 :: nat)] = [CHR 0xE2, CHR 0x80, CHR 0xA9]"
  by (simp_all add: char_of_eq_iff)

lemma decString_u2028:
  "decString (bs # CHR ''u'' # CHR ''2'' # CHR ''0'' # CHR ''2'' # CHR ''8'' # t)
     = prepend [CHR 0xE2, CHR 0x80, CHR 0xA8] (decString t)"
  by (simp add: dq_def bs_def hex4_def hexval_def byte_def utf8enc_def line_separators)

lemma decString_u2029:
  "decString (bs # CHR ''u'' # CHR ''2'' # CHR ''0'' # CHR ''2'' # CHR ''9'' # t)
     = prepend [CHR 0xE2, CHR 0x80, CHR 0xA9] (decString t)"
  by (simp add: dq_def bs_def hex4_def hexval_def byte_def utf8enc_def line_separators)

text \<open>A string of valid UTF-8 is read back from its encoding, up to the closing quote.\<close>

lemma decString_encString:
  "utf8 s \<Longrightarrow> decString (encString s @ dq # rest) = Some (s, rest)"
proof (induction "length s" arbitrary: s rule: less_induct)
  case less
  show ?case
  proof (cases s)
    case Nil
    then show ?thesis by simp
  next
    case (Cons c cs)
    show ?thesis
    proof (cases "byte c < 128")
      case True
      with less.prems Cons have "utf8 cs" by simp
      with less.hyps [of cs] Cons
      have "decString (encString cs @ dq # rest) = Some (cs, rest)" by simp
      with True Cons show ?thesis
        by (simp add: decString_encByte prepend_def del: decString.simps)
    next
      case False
      define n where "n = runeWidth (c # cs)"
      define blk where "blk = take n (c # cs)"
      define tl where "tl = drop (n - 1) cs"
      from less.prems Cons False have n0: "n \<noteq> 0" and u: "utf8 tl"
        by (simp_all add: n_def tl_def Let_def)
      from runeWidth_block [OF n_def [symmetric] n0]
      have high: "\<forall>x\<in>set blk. 128 \<le> byte x"
        by (simp add: blk_def)
      have split: "c # cs = blk @ tl"
        using n0 by (cases n) (simp_all add: blk_def tl_def)
      have "length tl < length s"
        using Cons by (simp add: tl_def)
      with less.hyps [of tl] u
      have ih: "decString (encString tl @ dq # rest) = Some (tl, rest)" by simp
      have enc: "encString (c # cs) =
          (if blk = [CHR 0xE2, CHR 0x80, CHR 0xA8]
             then [bs, CHR ''u'', CHR ''2'', CHR ''0'', CHR ''2'', CHR ''8''] @ encString tl
           else if blk = [CHR 0xE2, CHR 0x80, CHR 0xA9]
             then [bs, CHR ''u'', CHR ''2'', CHR ''0'', CHR ''2'', CHR ''9''] @ encString tl
           else blk @ encString tl)"
        using False n0 unfolding blk_def tl_def by (simp add: n_def [symmetric] Let_def)
      have "decString (encString (c # cs) @ dq # rest) = prepend blk (decString (encString tl @ dq # rest))"
        unfolding enc using high
        by (auto simp: decString_u2028 decString_u2029 decString_high simp del: decString.simps)
      with ih split Cons show ?thesis
        by (simp add: prepend_def)
    qed
  qed
qed

subsection \<open>Integers\<close>

lemma digit_val_digitChar: "d < 10 \<Longrightarrow> digit_val (digitChar d) = Some d"
  by (simp add: digit_val_def digitChar_def Let_def)

lemma decimal_append:
  "decimal a (xs @ ys) = (case decimal a xs of None \<Rightarrow> None | Some b \<Rightarrow> decimal b ys)"
  by (induction xs arbitrary: a) (simp_all split: option.splits)

lemma decimal_showNat: "decimal 0 (showNat n) = Some n"
proof (induction n rule: showNat.induct)
  case (1 n)
  show ?case
  proof (cases "n < 10")
    case True
    then show ?thesis
      by (simp add: showNat.simps [of n] digit_val_digitChar)
  next
    case False
    with 1 have "decimal 0 (showNat (n div 10)) = Some (n div 10)" by simp
    with False show ?thesis
      by (simp add: showNat.simps [of n] decimal_append digit_val_digitChar)
  qed
qed

lemma showNat_digits: "showNat n \<noteq> [] \<and> (\<forall>c\<in>set (showNat n). isDigit c)"
proof (induction n rule: showNat.induct)
  case (1 n)
  show ?case
  proof (cases "n < 10")
    case True
    then show ?thesis
      by (simp add: showNat.simps [of n] isDigit_def digit_val_digitChar)
  next
    case False
    with 1 show ?thesis
      by (simp add: showNat.simps [of n] isDigit_def digit_val_digitChar)
  qed
qed

lemma showNat_head: "\<exists>c r. showNat n = c # r \<and> c \<noteq> CHR ''-''"
proof -
  obtain c r where cr: "showNat n = c # r"
    using showNat_digits [of n] by (cases "showNat n") auto
  then have "isDigit c" using showNat_digits [of n] by simp
  then have "c \<noteq> CHR ''-''" by (auto simp: isDigit_def digit_val_def)
  with cr show ?thesis by blast
qed

text \<open>Every int64 is read back from its decimal form, when no digit follows it.\<close>

lemma decInt_encInt:
  assumes "\<not> isDigit x"
  shows "decInt (encInt (sint w) @ x # rest) = Some (w :: 64 word, x # rest)"
proof -
  define n where "n = (if sint w < 0 then nat (- sint w) else nat (sint w))"
  have tw: "takeWhile isDigit (showNat n @ x # rest) = showNat n"
    and dw: "dropWhile isDigit (showNat n @ x # rest) = x # rest"
    using assms showNat_digits [of n] by (simp_all add: takeWhile_tail dropWhile_append2)
  have range: "- (2 ^ 63) \<le> sint w" "sint w < 2 ^ 63"
    using sint_ge [of w] sint_lt [of w] by simp_all
  obtain c r where cr: "showNat n = c # r" "c \<noteq> CHR ''-''"
    using showNat_head by blast
  show ?thesis
  proof (cases "sint w < 0")
    case True
    then have e: "encInt (sint w) = CHR ''-'' # showNat n" by (simp add: encInt_def n_def)
    have "- int n = sint w" using True by (simp add: n_def)
    then show ?thesis
      using range showNat_digits [of n]
      by (simp add: e decInt_def tw dw decimal_showNat)
  next
    case False
    then have e: "encInt (sint w) = showNat n" by (simp add: encInt_def n_def)
    have "int n = sint w" using False by (simp add: n_def)
    moreover have "(case showNat n @ x # rest of [] \<Rightarrow> False | c # r \<Rightarrow> c = CHR ''-'') = False"
      using cr by simp
    ultimately show ?thesis
      using range showNat_digits [of n]
      by (simp add: e decInt_def tw dw decimal_showNat)
  qed
qed

subsection \<open>Maps and documents\<close>

lemma expect_append: "expect p (p @ r) = Some r"
  by (simp add: expect_def)

lemma decEntries_entry:
  assumes "utf8 k" and "utf8 (the (m k))"
  shows "decEntries m0 (entry m k @ x # rest) =
     (if x = CHR '','' then decEntries (m0(k \<mapsto> the (m k))) rest
      else if x = CHR ''}'' then Some (m0(k \<mapsto> the (m k)), rest)
      else None)"
proof -
  have e: "entry m k @ x # rest
      = dq # (encString k @ dq # (CHR '':'' # dq # (encString (the (m k)) @ dq # (x # rest))))"
    by (simp add: entry_def quote_def)
  show ?thesis
    unfolding e using assms
    by (simp add: decString_encString del: decString.simps)
qed

lemma decEntries_encEntries:
  "ks \<noteq> [] \<Longrightarrow> \<forall>k\<in>set ks. utf8 k \<and> utf8 (the (m k)) \<Longrightarrow>
   decEntries m0 (encEntries m ks @ CHR ''}'' # rest) = Some (putAll m ks m0, rest)"
proof (induction m ks arbitrary: m0 rule: encEntries.induct)
  case (1 m)
  then show ?case by simp
next
  case (2 m k)
  then have "decEntries m0 (encEntries m [k] @ CHR ''}'' # rest) = Some (m0(k \<mapsto> the (m k)), rest)"
    by (simp add: decEntries_entry del: decEntries.simps)
  then show ?case by (simp add: fun_upd_def del: decEntries.simps)
next
  case (3 m k k' ks)
  then show ?case by (simp add: decEntries_entry del: decEntries.simps)
qed

lemma putAll_apply:
  "putAll m ks m0 x = (if x \<in> set ks then Some (the (m x)) else m0 x)"
  by (induction ks arbitrary: m0) auto

lemma putAll_dom:
  assumes "set ks = dom m"
  shows "putAll m ks Map.empty = m"
proof
  fix x
  show "putAll m ks Map.empty x = m x"
    using assms by (cases "m x") (auto simp: putAll_apply dom_def)
qed

text \<open>A finite map of valid strings is read back from its encoding.\<close>

lemma decMap_encMap:
  assumes "finite (dom m)" and "\<forall>k\<in>dom m. utf8 k \<and> utf8 (the (m k))"
  shows "decMap Map.empty (encMap m @ rest) = Some (m, rest)"
proof -
  define ks where "ks = sorted_list_of_set (dom m)"
  have set: "set ks = dom m" using assms(1) by (simp add: ks_def)
  show ?thesis
  proof (cases ks)
    case Nil
    with set have "dom m = {}" by simp
    then have "m = Map.empty" by simp
    with Nil show ?thesis
      by (simp add: decMap_def encMap_def)
  next
    case (Cons k ks')
    then obtain c t where ct: "encEntries m ks = c # t" "c = dq"
      by (cases ks') (simp_all add: entry_def quote_def)
    have ne: "ks \<noteq> []" using Cons by simp
    have all: "\<forall>k\<in>set ks. utf8 k \<and> utf8 (the (m k))" using set assms(2) by simp
    have d: "decEntries Map.empty (encEntries m ks @ CHR ''}'' # rest) = Some (m, rest)"
      using decEntries_encEntries [OF ne all, of Map.empty rest]
      by (simp add: putAll_dom [OF set])
    have "decMap Map.empty (encMap m @ rest)
        = decEntries Map.empty (dq # (t @ CHR ''}'' # rest))"
      using ct by (simp add: decMap_def encMap_def ks_def [symmetric] dq_def del: decEntries.simps)
    also have "\<dots> = decEntries Map.empty (encEntries m ks @ CHR ''}'' # rest)"
      using ct by (simp del: decEntries.simps)
    finally show ?thesis using d by simp
  qed
qed

lemma not_digit_comma: "\<not> isDigit (CHR '','')"
  by (simp add: isDigit_def digit_val_def)

lemma Marshal_json_shape:
  \<open>Marshal_json v =
     Inr (''{"name":"'' @ encString (Name v) @ dq # '',"id":"'' @ encString (ID v) @ dq
          # '',"sizeBytes":'' @ encInt (sint (SizeBytes v))
          @ CHR '','' # ''"parameters":'' @ encMap (Parameters v) @ ''}'')\<close>
  by (simp add: Marshal_json_def quote_def dq_def)

text \<open>
  The document that \<open>Marshal_json\<close> writes for a volume of valid UTF-8 is unmarshalled
  into the blank record as the volume itself.
\<close>

lemma Unmarshal_Marshal_json:
  assumes "utf8Volume v" and "Marshal_json v = Inr a"
  shows "Unmarshal_json a blankInfo = Inr v"
proof -
  from assms(1) have n: "utf8 (Name v)" and i: "utf8 (ID v)"
    and fin: "finite (dom (Parameters v))"
    and kv: "\<forall>k\<in>dom (Parameters v). utf8 k \<and> utf8 (the (Parameters v k))"
    by (simp_all add: utf8Volume_def)
  have e4: \<open>expect '',"parameters":'' (CHR '','' # ''"parameters":'' @ encMap (Parameters v) @ ''}'')
      = Some (encMap (Parameters v) @ ''}'')\<close>
    using expect_append [of \<open>'',"parameters":''\<close>] by simp
  have v: "blankInfo\<lparr>ID := ID v, Name := Name v, SizeBytes := SizeBytes v,
      Parameters := Parameters v\<rparr> = v"
    by simp
  from assms(2) have a: \<open>a = ''{"name":"'' @ encString (Name v) @ dq # '',"id":"'' @ encString (ID v) @ dq
          # '',"sizeBytes":'' @ encInt (sint (SizeBytes v))
          @ CHR '','' # ''"parameters":'' @ encMap (Parameters v) @ ''}''\<close>
    by (simp add: Marshal_json_shape)
  show ?thesis
    unfolding Unmarshal_json_def a
    by (simp only: expect_append decString_encString [OF n] decString_encString [OF i]
        decInt_encInt [OF not_digit_comma] e4 decMap_encMap [OF fin kv]
        Option.bind.simps prod.case option.case if_True blankInfo_def Info.simps v [unfolded blankInfo_def])
      simp
qed

lemma jsonLib_reads_back: "utf8Volume v \<Longrightarrow> json_reads_back (jsonLib lower) v"
  by (simp add: json_reads_back_def jsonLib_def Marshal_json_def)
    (rule Unmarshal_Marshal_json, simp_all add: Marshal_json_def)

subsection \<open>The sample documents\<close>

text \<open>
  The documents of the sample data are the ones the encoder writes, so the table of
  \<open>sampleLib\<close> agrees with this model of the library.
\<close>

lemmas json_enc_defs = Marshal_json_def quote_def encMap_def entry_def encInt_def encByte_def
  byte_def dq_def bs_def digitChar_def Let_def char_of_eq_iff

lemma showNat_2048: "showNat 2048 = ''2048''"
  by (simp add: showNat.simps [of 2048] showNat.simps [of 204] showNat.simps [of 20]
      showNat.simps [of 2] digitChar_def char_of_eq_iff)

lemma marshal_samples:
  "Marshal_json volA = Inr docA" "Marshal_json volB = Inr docB" "Marshal_json volC = Inr docC"
  "Marshal_json volE = Inr docE"
  by (simp_all add: json_enc_defs showNat_2048 volA_def volB_def volC_def volE_def docA_def docB_def
      docC_def docE_def two_def three_def four_def cont_def)

lemmas json_dec_defs = Unmarshal_json_def expect_def decMap_def decInt_def isDigit_def digit_val_def
  prepend_def hex4_def hexval_def unescape_def utf8enc_def byte_def dq_def bs_def blankInfo_def
  Let_def char_of_eq_iff

lemma replacement_bytes:
  "[char_of (239 :: nat), char_of (191 :: nat), char_of (189 :: nat)] = [CHR 0xEF, CHR 0xBF, CHR 0xBD]"
  by (simp add: char_of_eq_iff)

lemma unmarshal_docC:
  "Unmarshal_json docC blankInfo = Inr (volC\<lparr>Name := [CHR 0xEF, CHR 0xBF, CHR 0xBD]\<rparr>)"
  by (simp add: json_dec_defs docC_def volC_def replacement_bytes)


lemma utf8_samples: "utf8Volume volA" "utf8Volume volB" "utf8Volume volE"
  by (simp_all add: utf8Volume_def volA_def volB_def volE_def byte_def)

lemma annotated_props:
  "RscDfnProps (annotated n doc) = [\<lparr>Key = ''DrbdOptions/auto-quorum'', Value = ''io-error''\<rparr>]
     @ \<lparr>Key = auxKey sampleClient, Value = doc\<rparr> # []"
  "\<forall>p\<in>set [\<lparr>Key = ''DrbdOptions/auto-quorum'', Value = ''io-error''\<rparr>]. Key p \<noteq> auxKey sampleClient"
  by (simp_all add: annotated_def auxKey_def sampleClient_def NewLinstor_def)

lemma decode_annotated:
  "resDefToVolume (jsonLib lower) sampleClient (annotated n doc) =
     (case Unmarshal_json doc blankInfo of
        Inl err \<Rightarrow> Inl UnmarshalFailed
      | Inr vol \<Rightarrow> if Name vol = [] then Inl NameExtractFailed else Inr (Some vol))"
  using scanProps_first [OF annotated_props(2), of "\<lparr>Key = auxKey sampleClient, Value = doc\<rparr>"
      "jsonLib lower" "[]"]
  by (simp add: resDefToVolume_def annotated_props(1) jsonLib_def)

section \<open>The round trip of a volume\<close>

text \<open>What a successful translation leaves in the config: the marshalled volume.\<close>

lemma config_annotation:
  "resDeploymentConfigFromVolumeInfo L s ks vol = Inr cfg \<Longrightarrow>
   \<exists>a. Marshal L vol = Inr a \<and> Annotations cfg = [annotationsKey s \<mapsto> a]"
  by (auto simp: resDeploymentConfigFromVolumeInfo_def Let_def split: sum.splits)

lemma paramCase_error:
  "paramCase L cfg k v = Inl e \<Longrightarrow> \<exists>x. e = AutoPlaceNotInteger x"
  by (auto simp: paramCase_def Let_def split: if_splits option.splits)

lemma rangeParameters_error:
  "rangeParameters L m ks cfg = Inl e \<Longrightarrow> \<exists>x. e = AutoPlaceNotInteger x"
proof (induction ks arbitrary: cfg)
  case Nil
  then show ?case by simp
next
  case (Cons k ks)
  then show ?case
    by (auto split: option.splits sum.splits dest: paramCase_error)
qed

text \<open>
  The translation fails in two ways only: an \<open>autoplace\<close> parameter that is not an
  unsigned integer, or an error of the JSON library.
\<close>

lemma config_error:
  "resDeploymentConfigFromVolumeInfo L s ks vol = Inl e \<Longrightarrow>
   (\<exists>x. e = AutoPlaceNotInteger x) \<or> Marshal L vol = Inl e"
  by (auto simp: resDeploymentConfigFromVolumeInfo_def Let_def split: sum.splits
      dest: rangeParameters_error)

text \<open>The annotation that the translation stores, when it succeeds.\<close>

lemma annotation_of:
  "(case resDeploymentConfigFromVolumeInfo (jsonLib lower) s ks v of
      Inl err \<Rightarrow> None | Inr cfg \<Rightarrow> Annotations cfg (annotationsKey s))
   = (case rangeParameters (jsonLib lower) (Parameters v) ks
        (zeroConfig\<lparr>cfgControllers := Controllers s, cfgName := ID v,
           SizeKiB := word_of_int (sint (SizeBytes v) sdiv 1024 + 1)\<rparr>) of
        Inl err \<Rightarrow> None
      | Inr cfg \<Rightarrow> (case Marshal_json v of Inl err \<Rightarrow> None | Inr a \<Rightarrow> Some a))"
  by (simp add: resDeploymentConfigFromVolumeInfo_def jsonLib_def Let_def split: sum.splits)

text \<open>
  C1, as stated: for any volume, encoding and then decoding gives the volume back. It
  fails in three ways. A volume whose \<open>Name\<close> is empty is encoded, and
  \<open>resDefToVolume\<close> rejects it for its empty name when it reads the document. A volume
  whose name is not valid UTF-8 comes back with U+FFFD in place of the bad byte. A volume
  whose \<open>autoplace\<close> parameter is not a number is not encoded at all: the translation
  returns the error.
\<close>

theorem codec_roundtrip_counterexample:
  "(case resDeploymentConfigFromVolumeInfo (jsonLib asciiLower) sampleClient [] volB of
      Inl err \<Rightarrow> None | Inr cfg \<Rightarrow> Annotations cfg (annotationsKey sampleClient)) = Some docB
   \<and> resDefToVolume (jsonLib asciiLower) sampleClient (annotated ''vol2'' docB)
       = Inl NameExtractFailed
   \<and> (case resDeploymentConfigFromVolumeInfo (jsonLib asciiLower) sampleClient [] volC of
      Inl err \<Rightarrow> None | Inr cfg \<Rightarrow> Annotations cfg (annotationsKey sampleClient)) = Some docC
   \<and> resDefToVolume (jsonLib asciiLower) sampleClient (annotated ''vol3'' docC)
       = Inr (Some (volC\<lparr>Name := [CHR 0xEF, CHR 0xBF, CHR 0xBD]\<rparr>))
   \<and> volC\<lparr>Name := [CHR 0xEF, CHR 0xBF, CHR 0xBD]\<rparr> \<noteq> volC
   \<and> resDeploymentConfigFromVolumeInfo (jsonLib asciiLower) sampleClient [''autoplace''] volD
       = Inl (AutoPlaceNotInteger ''many'')"
proof -
  have b: "Unmarshal_json docB blankInfo = Inr volB"
    using utf8_samples(2) marshal_samples(2) by (rule Unmarshal_Marshal_json)
  have 1: "(case resDeploymentConfigFromVolumeInfo (jsonLib asciiLower) sampleClient [] volB of
      Inl err \<Rightarrow> None | Inr cfg \<Rightarrow> Annotations cfg (annotationsKey sampleClient)) = Some docB"
    by (simp add: annotation_of marshal_samples)
  have 2: "resDefToVolume (jsonLib asciiLower) sampleClient (annotated ''vol2'' docB)
       = Inl NameExtractFailed"
    by (simp add: decode_annotated b) (simp add: volB_def)
  have 3: "(case resDeploymentConfigFromVolumeInfo (jsonLib asciiLower) sampleClient [] volC of
      Inl err \<Rightarrow> None | Inr cfg \<Rightarrow> Annotations cfg (annotationsKey sampleClient)) = Some docC"
    by (simp add: annotation_of marshal_samples)
  have 4: "resDefToVolume (jsonLib asciiLower) sampleClient (annotated ''vol3'' docC)
       = Inr (Some (volC\<lparr>Name := [CHR 0xEF, CHR 0xBF, CHR 0xBD]\<rparr>))"
    by (simp add: decode_annotated unmarshal_docC)
  have 5: "volC\<lparr>Name := [CHR 0xEF, CHR 0xBF, CHR 0xBD]\<rparr> \<noteq> volC"
    by (simp add: volC_def)
  have 6: "resDeploymentConfigFromVolumeInfo (jsonLib asciiLower) sampleClient [''autoplace''] volD
       = Inl (AutoPlaceNotInteger ''many'')"
    by (simp add: resDeploymentConfigFromVolumeInfo_def jsonLib_def volD_def paramCase_def
        asciiLower_def key_defs ParseUint_def digit_val_def Let_def char_of_eq_iff)
  from 1 2 3 4 5 6 show ?thesis by simp
qed

text \<open>
  C1, amended: for any volume \<open>v\<close> with a name that is not empty, whose strings are
  valid UTF-8 and for which the translation succeeds, the config carries an annotation
  under the annotation key, and every resource definition whose first property under
  \<open>Aux/\<close> plus that key holds this annotation decodes to \<open>v\<close>, field for field.
\<close>

theorem codec_roundtrip:
  assumes "resDeploymentConfigFromVolumeInfo (jsonLib lower) s ks v = Inr cfg"
    and "Name v \<noteq> []"
    and "utf8Volume v"
  shows "\<exists>a. Annotations cfg (annotationsKey s) = Some a
           \<and> (\<forall>rd pre post. RscDfnProps rd = pre @ \<lparr>Key = auxKey s, Value = a\<rparr> # post
                  \<and> (\<forall>p\<in>set pre. Key p \<noteq> auxKey s)
                \<longrightarrow> resDefToVolume (jsonLib lower) s rd = Inr (Some v))"
proof -
  from assms(1) obtain a where m: "Marshal (jsonLib lower) v = Inr a"
    and ann: "Annotations cfg = [annotationsKey s \<mapsto> a]"
    using config_annotation by blast
  from m have "Marshal_json v = Inr a" by (simp add: jsonLib_def)
  with assms(3) have "Unmarshal_json a blankInfo = Inr v"
    by (rule Unmarshal_Marshal_json)
  then have u: "Unmarshal (jsonLib lower) a blankInfo = Inr v" by (simp add: jsonLib_def)
  have "resDefToVolume (jsonLib lower) s rd = Inr (Some v)"
    if "RscDfnProps rd = pre @ \<lparr>Key = auxKey s, Value = a\<rparr> # post"
      and "\<forall>p\<in>set pre. Key p \<noteq> auxKey s" for rd pre post
    using that u assms(2) by (simp add: resDefToVolume_def scanProps_first)
  with ann show ?thesis by auto
qed

theorem codec_roundtrip_witness:
  "(case resDeploymentConfigFromVolumeInfo (jsonLib asciiLower) sampleClient [''AutoPlace''] volA of
      Inl err \<Rightarrow> None | Inr cfg \<Rightarrow> Annotations cfg (annotationsKey sampleClient)) = Some docA
   \<and> resDefToVolume (jsonLib asciiLower) sampleClient (annotated ''vol1'' docA) = Inr (Some volA)"
proof -
  obtain cfg where c: "resDeploymentConfigFromVolumeInfo (jsonLib asciiLower) sampleClient
        [''AutoPlace''] volA = Inr cfg"
    and d: "Annotations cfg (annotationsKey sampleClient) = Some docA"
    by (simp add: resDeploymentConfigFromVolumeInfo_def jsonLib_def marshal_samples(1) paramCase_def
        asciiLower_def key_defs ParseUint_def digit_val_def Let_def char_of_eq_iff volA_def [THEN arg_cong, of Parameters])
  have n: "Name volA \<noteq> []"
    by (simp add: volA_def)
  from codec_roundtrip [OF c n utf8_samples(1)] d
  have "\<forall>rd pre post. RscDfnProps rd = pre @ \<lparr>Key = auxKey sampleClient, Value = docA\<rparr> # post
            \<and> (\<forall>p\<in>set pre. Key p \<noteq> auxKey sampleClient)
          \<longrightarrow> resDefToVolume (jsonLib asciiLower) sampleClient rd = Inr (Some volA)"
    by auto
  then have "RscDfnProps (annotated ''vol1'' docA)
        = [\<lparr>Key = ''DrbdOptions/auto-quorum'', Value = ''io-error''\<rparr>]
            @ \<lparr>Key = auxKey sampleClient, Value = docA\<rparr> # []
      \<and> (\<forall>p\<in>set [\<lparr>Key = ''DrbdOptions/auto-quorum'', Value = ''io-error''\<rparr>].
            Key p \<noteq> auxKey sampleClient)
      \<longrightarrow> resDefToVolume (jsonLib asciiLower) sampleClient (annotated ''vol1'' docA) = Inr (Some volA)"
    by blast
  then have "resDefToVolume (jsonLib asciiLower) sampleClient (annotated ''vol1'' docA) = Inr (Some volA)"
    using annotated_props by simp
  with c d show ?thesis by simp
qed

section \<open>Lookup by name\<close>


text \<open>A resource definition that decodes to nil can be left out of the listing.\<close>

lemma scanByName_skip:
  "resDefToVolume L s rd = Inr None \<Longrightarrow>
   scanByName L s n (pre @ rd # post) = scanByName L s n (pre @ post)"
  by (induction pre) (auto split: sum.splits option.splits)





section \<open>Lookup by ID\<close>

text \<open>
  The loop of \<open>GetByID\<close> panics at the first resource definition without annotation
  whose resource name is not the ID, unless it has returned before.
\<close>

lemma scanByID_panics:
  "\<forall>r\<in>set pre. \<not> returnsByID L s i r \<Longrightarrow> resDefToVolume L s rd = Inr None \<Longrightarrow>
   RscName rd \<noteq> i \<Longrightarrow> scanByID L s i (pre @ rd # post) = Panics"
  by (induction pre) (auto simp: returnsByID_def split: sum.splits option.splits)

text \<open>
  C9: when the listing holds a resource definition without the annotation key whose
  resource name is not the queried ID, and \<open>GetByID\<close> has not returned at a resource
  definition before it, \<open>GetByID\<close> reads \<open>vol.ID\<close> through the nil volume: it panics.
  \<open>GetByName\<close> on the same listing skips that resource definition: its result is the
  one of the listing without it. The witness shows that the branch is reached.
\<close>

theorem GetByID_nil_dereference:
  assumes "listing = Inr (pre @ rd # post)"
    and "\<forall>p\<in>set (RscDfnProps rd). Key p \<noteq> auxKey s"
    and "RscName rd \<noteq> i"
    and "\<forall>r\<in>set pre. \<not> returnsByID L s i r"
  shows "GetByID L s listing i = Panics
    \<and> GetByName L s listing n = GetByName L s (Inr (pre @ post)) n"
proof -
  from assms(2) have nil: "resDefToVolume L s rd = Inr None"
    by (simp add: resDefToVolume_def scanProps_absent)
  with assms show ?thesis
    by (simp add: GetByID_def GetByName_def scanByID_panics scanByName_skip)
qed

theorem GetByID_nil_dereference_witness:
  "GetByID sampleLib sampleClient (Inr [annotated ''vol1'' docA, foreignResDef]) ''vol7'' = Panics
   \<and> GetByName sampleLib sampleClient (Inr [annotated ''vol1'' docA, foreignResDef]) ''other''
      = Inr None"
proof -
  have a: "resDefToVolume sampleLib sampleClient (annotated ''vol1'' docA) = Inr (Some volA)"
    by (simp add: sample_defs codec_defs)
  have 1: "\<forall>p\<in>set (RscDfnProps foreignResDef). Key p \<noteq> auxKey sampleClient"
    by (simp add: sample_defs auxKey_def)
  have 2: "RscName foreignResDef \<noteq> ''vol7''"
    by (simp add: foreignResDef_def)
  have 3: "\<forall>r\<in>set [annotated ''vol1'' docA]. \<not> returnsByID sampleLib sampleClient ''vol7'' r"
    by (simp add: returnsByID_def a) (simp add: annotated_def volA_def)
  have "GetByName sampleLib sampleClient (Inr ([annotated ''vol1'' docA] @ [])) ''other'' = Inr None"
    by (simp add: GetByName_def a) (simp add: sample_defs)
  with GetByID_nil_dereference [OF _ 1 2 3, of "Inr [annotated ''vol1'' docA, foreignResDef]" "[]" "''other''"]
  show ?thesis by simp
qed

end
